theory Spec2Isabelle
  imports Complex_Main "HOL-Library.Log_Nat"
begin

section \<open>Btax.py: tax and depreciation calculators\<close>

text \<open>
  Currency amounts are Python floats in the source. They are modelled as reals, and every
  decimal constant of the source stands for the decimal it is written as (\<open>0.07\<close> is
  \<open>7/100\<close>). The rounding of binary floating point is outside the model of the
  calculators; it is modelled for the two pages that compute the taxable income, which
  differ in the order of their operations.
\<close>

subsection \<open>Standard company tax\<close>

text \<open>
  \<^verbatim>\<open>
  def calculate_business_tax(taxable_income):
      tax_rate = 0.27
      tax_amount = taxable_income * tax_rate
      return tax_amount, tax_rate
  \<close>
\<close>

definition calculate_business_tax :: "real \<Rightarrow> real \<times> real" where
  "calculate_business_tax taxable_income =
     (let tax_rate = 0.27;
          tax_amount = taxable_income * tax_rate
      in (tax_amount, tax_rate))"

subsection \<open>Small business corporation tax\<close>

text \<open>
  A bracket is the tuple \<open>(min_income, max_income, rate, base_tax)\<close>. The upper bound of
  the last bracket is \<open>float('inf')\<close>, so an upper bound is either a number or infinity.
\<close>

datatype upper_bound = Fin real | Infinite

fun at_most :: "real \<Rightarrow> upper_bound \<Rightarrow> bool" where
  "at_most x (Fin m) = (x \<le> m)"
| "at_most x Infinite = True"

type_synonym bracket = "real \<times> upper_bound \<times> real \<times> real"

definition tax_brackets :: "bracket list" where
  "tax_brackets =
     [(0, Fin 91250, 0, 0),
      (91251, Fin 365000, 0.07, 0),
      (365001, Fin 550000, 0.21, 19162.50),
      (550001, Infinite, 0.28, 58037.50)]"

text \<open>
  The \<open>for\<close> loop over the brackets: the first bracket with
  \<open>min_income <= taxable_income <= max_income\<close> returns from the function; \<open>None\<close> means
  that the loop ran to its end without returning.
\<close>

fun bracket_loop :: "bracket list \<Rightarrow> real \<Rightarrow> (real \<times> real) option" where
  "bracket_loop [] taxable_income = None"
| "bracket_loop ((min_income, max_income, rate, base_tax) # rest) taxable_income =
     (if min_income \<le> taxable_income \<and> at_most taxable_income max_income
      then Some (base_tax + (taxable_income - min_income + 1) * rate, rate)
      else bracket_loop rest taxable_income)"

definition calculate_small_business_tax :: "real \<Rightarrow> real \<times> real" where
  "calculate_small_business_tax taxable_income =
     (case bracket_loop tax_brackets taxable_income of
        Some result \<Rightarrow> result
      | None \<Rightarrow> (0, 0))"

subsection \<open>Depreciation schedule\<close>

text \<open>
  \<^verbatim>\<open>
  def calculate_depreciation(row):
      years_owned = (datetime.now() - row['purchase_date']).days / 365
      annual_depreciation = row['purchase_cost'] / row['expected_life']
      accumulated_depreciation = min(years_owned * annual_depreciation, row['purchase_cost'])
      return pd.Series({
          'Annual Depreciation': annual_depreciation,
          'Accumulated Depreciation': accumulated_depreciation,
          'Current Value': max(row['purchase_cost'] - accumulated_depreciation, 0)
      })
  \<close>
  A point in time is a count of microseconds; the clock reading \<open>datetime.now()\<close> is an
  argument of the model. The \<open>days\<close> of a time difference is the floor of the difference
  in whole days. The asset form stores \<open>expected_life\<close> as an integer; dividing by an
  expected life of zero raises. \<open>py_error\<close> lists the exceptions that the models of both
  applications raise; the text carried by a \<open>NameError\<close> is the unbound name.
\<close>

type_synonym datetime = int

definition timedelta_days :: "datetime \<Rightarrow> int" where
  "timedelta_days delta = delta div 86400000000"

record asset_row =
  purchase_date :: datetime
  purchase_cost :: real
  expected_life :: int

record depreciation =
  annual_depreciation :: real
  accumulated_depreciation :: real
  current_value :: real

datatype py_error = ZeroDivisionError | NameError string | ServiceError string

definition years_owned :: "datetime \<Rightarrow> asset_row \<Rightarrow> real" where
  "years_owned now row = real_of_int (timedelta_days (now - purchase_date row)) / 365"

definition calculate_depreciation :: "datetime \<Rightarrow> asset_row \<Rightarrow> py_error + depreciation" where
  "calculate_depreciation now row =
     (if expected_life row = 0 then Inl ZeroDivisionError
      else
        let annual = purchase_cost row / real_of_int (expected_life row);
            accumulated = min (years_owned now row * annual) (purchase_cost row)
        in Inr \<lparr>annual_depreciation = annual,
                accumulated_depreciation = accumulated,
                current_value = max (purchase_cost row - accumulated) 0\<rparr>)"

subsection \<open>Taxable income on the two pages that estimate tax\<close>











section \<open>DocumentR.py: retry with fallback\<close>

text \<open>
  A call of the wrapped unit of work either returns a value or raises an exception
  \<open>e\<close>; what the retry policy looks at is the text \<open>str(e)\<close>, so a raised
  exception is modelled by that text.
\<close>

datatype 'r outcome = Returns 'r | Raises string

fun startswith :: "string \<Rightarrow> string \<Rightarrow> bool" where
  "startswith s [] = True"
| "startswith [] (p # ps) = False"
| "startswith (c # cs) (p # ps) = (c = p \<and> startswith cs ps)"

text \<open>Python's \<open>sub in s\<close> on strings.\<close>

fun contains :: "string \<Rightarrow> string \<Rightarrow> bool" where
  "contains [] sub = startswith [] sub"
| "contains (c # cs) sub = (startswith (c # cs) sub \<or> contains cs sub)"

text \<open>
  What a run of \<open>process_with_retry\<close> does to the outside is kept as a trace of events,
  in the order in which they happen: a call \<open>func(*args)\<close>, a \<open>time.sleep\<close>, the
  warning shown to the user, and a call of the fallback model with its \<open>max_length\<close>.
\<close>

datatype 'a event =
    Call 'a
  | Sleep real
  | Warning string
  | Fallback 'a nat

text \<open>
  The world holds the state of the external service behind \<open>func\<close>, the trace, and the
  number of values drawn from the random number generator so far.
\<close>

record ('a, 's) world =
  service :: 's
  trace :: "'a event list"
  random_draws :: nat

definition call ::
  "('a \<Rightarrow> 's \<Rightarrow> 'r outcome \<times> 's) \<Rightarrow> 'a \<Rightarrow> ('a, 's) world \<Rightarrow> 'r outcome \<times> ('a, 's) world" where
  "call func args w =
     (case func args (service w) of
        (out, s) \<Rightarrow> (out, w\<lparr>service := s, trace := trace w @ [Call args]\<rparr>))"

text \<open>\<open>random.random()\<close>: \<open>jitter n\<close> is the \<open>n\<close>-th value the generator hands out.\<close>

definition random_random :: "(nat \<Rightarrow> real) \<Rightarrow> ('a, 's) world \<Rightarrow> real \<times> ('a, 's) world" where
  "random_random jitter w = (jitter (random_draws w), w\<lparr>random_draws := Suc (random_draws w)\<rparr>)"

definition time_sleep :: "real \<Rightarrow> ('a, 's) world \<Rightarrow> ('a, 's) world" where
  "time_sleep seconds w = w\<lparr>trace := trace w @ [Sleep seconds]\<rparr>"

definition st_warning :: "string \<Rightarrow> ('a, 's) world \<Rightarrow> ('a, 's) world" where
  "st_warning message w = w\<lparr>trace := trace w @ [Warning message]\<rparr>"

text \<open>
  \<open>fallback_model(*args, max_length=100)[0]['generated_text']\<close>: the local model is a
  function from its input and length cap to the generated text.
\<close>

definition call_fallback ::
  "('a \<Rightarrow> nat \<Rightarrow> 'r) \<Rightarrow> 'a \<Rightarrow> nat \<Rightarrow> ('a, 's) world \<Rightarrow> 'r \<times> ('a, 's) world" where
  "call_fallback fallback_model args max_length w =
     (fallback_model args max_length, w\<lparr>trace := trace w @ [Fallback args max_length]\<rparr>)"

text \<open>
  \<^verbatim>\<open>
  def process_with_retry(func, *args, max_retries=3, **kwargs):
      for attempt in range(max_retries):
          try:
              return func(*args, **kwargs)
          except Exception as e:
              if "429" in str(e) and attempt < max_retries - 1:
                  wait_time = (2 ** attempt) + random.random()
                  time.sleep(wait_time)
              elif attempt == max_retries - 1:
                  st.warning("API limit reached. Falling back to local model.")
                  fallback_model = get_fallback_model()
                  return fallback_model(*args, max_length=100)[0]['generated_text']
              else:
                  raise e
  \<close>
  \<open>retry_loop\<close> is the body of the \<open>for\<close> loop over the attempts still to run. A loop
  that runs to its end leaves the function without a \<open>return\<close>: the result is \<open>None\<close>.
  Inside the loop \<open>attempt < max_retries\<close>, so \<open>max_retries - 1\<close> on naturals is the
  source's subtraction.
\<close>

fun retry_loop ::
  "(nat \<Rightarrow> real) \<Rightarrow> ('a \<Rightarrow> nat \<Rightarrow> 'r) \<Rightarrow> ('a \<Rightarrow> 's \<Rightarrow> 'r outcome \<times> 's) \<Rightarrow> 'a \<Rightarrow> nat \<Rightarrow>
   nat list \<Rightarrow> ('a, 's) world \<Rightarrow> 'r option outcome \<times> ('a, 's) world" where
  "retry_loop jitter fallback_model func args max_retries [] w = (Returns None, w)"
| "retry_loop jitter fallback_model func args max_retries (attempt # rest) w =
     (case call func args w of
        (Returns v, w1) \<Rightarrow> (Returns (Some v), w1)
      | (Raises e, w1) \<Rightarrow>
          if contains e ''429'' \<and> attempt < max_retries - 1 then
            (case random_random jitter w1 of
               (r, w2) \<Rightarrow>
                 let wait_time = 2 ^ attempt + r
                 in retry_loop jitter fallback_model func args max_retries rest
                      (time_sleep wait_time w2))
          else if attempt = max_retries - 1 then
            (case call_fallback fallback_model args 100
                    (st_warning ''API limit reached. Falling back to local model.'' w1) of
               (generated_text, w2) \<Rightarrow> (Returns (Some generated_text), w2))
          else (Raises e, w1))"

definition process_with_retry ::
  "(nat \<Rightarrow> real) \<Rightarrow> ('a \<Rightarrow> nat \<Rightarrow> 'r) \<Rightarrow> ('a \<Rightarrow> 's \<Rightarrow> 'r outcome \<times> 's) \<Rightarrow> 'a \<Rightarrow> nat \<Rightarrow>
   ('a, 's) world \<Rightarrow> 'r option outcome \<times> ('a, 's) world" where
  "process_with_retry jitter fallback_model func args max_retries w =
     retry_loop jitter fallback_model func args max_retries [0..<max_retries] w"

text \<open>
  The outcomes of the first \<open>n\<close> successive calls \<open>func(*args)\<close>, starting from a state
  of the service. It is used to say how the unit of work behaves, attempt by attempt.
\<close>

fun attempts :: "('a \<Rightarrow> 's \<Rightarrow> 'r outcome \<times> 's) \<Rightarrow> 'a \<Rightarrow> nat \<Rightarrow> 's \<Rightarrow> 'r outcome list" where
  "attempts func args 0 s = []"
| "attempts func args (Suc n) s =
     (case func args s of (out, s') \<Rightarrow> out # attempts func args n s')"

text \<open>The state of the service after \<open>n\<close> successive calls \<open>func(*args)\<close>.\<close>

fun service_after :: "('a \<Rightarrow> 's \<Rightarrow> 'r outcome \<times> 's) \<Rightarrow> 'a \<Rightarrow> nat \<Rightarrow> 's \<Rightarrow> 's" where
  "service_after func args 0 s = s"
| "service_after func args (Suc n) s = service_after func args n (snd (func args s))"

text \<open>
  The events of \<open>k\<close> attempts that are each followed by a backoff sleep: the attempts
  numbered \<open>first, first + 1, \<dots>\<close> by the loop variable \<open>attempt\<close>, when \<open>drawn\<close> random
  values were drawn before. The sleep after attempt \<open>a\<close> lasts \<open>2 ^ a\<close> seconds plus
  the random value drawn for it.
\<close>

definition retried_trace :: "(nat \<Rightarrow> real) \<Rightarrow> 'a \<Rightarrow> nat \<Rightarrow> nat \<Rightarrow> nat \<Rightarrow> 'a event list" where
  "retried_trace jitter args drawn first k =
     concat (map (\<lambda>i. [Call args, Sleep (2 ^ (first + i) + jitter (drawn + i))]) [0..<k])"

text \<open>The calls of the fallback model recorded in a trace, in order.\<close>

fun fallback_calls :: "'a event list \<Rightarrow> ('a \<times> nat) list" where
  "fallback_calls [] = []"
| "fallback_calls (Fallback args max_length # evs) = (args, max_length) # fallback_calls evs"
| "fallback_calls (ev # evs) = fallback_calls evs"

text \<open>
  Two concrete pieces for running the model on examples: a unit of work that answers its
  successive calls from a script (its state is the number of calls so far), and a world
  in which nothing has happened yet.
\<close>

definition scripted :: "string outcome list \<Rightarrow> string \<Rightarrow> nat \<Rightarrow> string outcome \<times> nat" where
  "scripted script args n = (if n < length script then script ! n else Raises ''exhausted'', Suc n)"

definition idle :: "(string, nat) world" where
  "idle = \<lparr>service = 0, trace = [], random_draws = 0\<rparr>"

section \<open>DocumentR.py: document summary\<close>

text \<open>
  \<^verbatim>\<open>
  def generate_document_summary(document_chunks, llm):
      summary_prompt = ChatPromptTemplate.from_template(... {doc_chunk} ...)
      summary_chain = summary_prompt | llm | StrOutputParser()

      summaries = []
      for chunk in document_chunks:
          summary = process_with_retry(summary_chain.invoke, {"doc_chunk": chunk})
          summaries.append(summary)

      combined_summary = " ".join(summaries)

      final_summary_prompt = ChatPromptTemplate.from_template(... {combined_summary} ...)
      final_summary_chain = final_summary_prompt | llm | StrOutputParser()
      return process_with_retry(final_summary_chain.invoke,
                                {"combined_summary": combined_summary})
  \<close>
  The two chains differ in their prompt template. The dictionary handed to a chain has one
  key, so it is modelled by the key and its value. The hosted model is an argument:
  \<open>llm chain input s\<close> is the outcome of \<open>chain.invoke(input)\<close> when the service is in
  state \<open>s\<close>, with the state that the call leaves behind.
\<close>

datatype chain = SummaryChain | FinalSummaryChain

datatype chain_input = DocChunk string | CombinedSummary string

text \<open>
  \<open>" ".join(items)\<close>. An item that is \<open>None\<close> (what \<open>process_with_retry\<close> hands back when
  its loop runs to the end) makes \<open>join\<close> raise a \<open>TypeError\<close>.
\<close>

fun join_space :: "string list \<Rightarrow> string" where
  "join_space [] = []"
| "join_space [s] = s"
| "join_space (s # t # rest) = s @ '' '' @ join_space (t # rest)"

fun all_strings :: "string option list \<Rightarrow> string list option" where
  "all_strings [] = Some []"
| "all_strings (None # xs) = None"
| "all_strings (Some s # xs) = map_option ((#) s) (all_strings xs)"

definition str_join :: "string option list \<Rightarrow> string outcome" where
  "str_join items =
     (case all_strings items of
        None \<Rightarrow> Raises ''TypeError: sequence item: expected str instance, NoneType found''
      | Some strs \<Rightarrow> Returns (join_space strs))"

text \<open>
  The \<open>for\<close> loop over the chunks, with the list \<open>summaries\<close> built so far. An exception
  that leaves \<open>process_with_retry\<close> leaves the loop and the function.
\<close>

fun summarize_chunks ::
  "(nat \<Rightarrow> real) \<Rightarrow> (chain_input \<Rightarrow> nat \<Rightarrow> string) \<Rightarrow>
   (chain \<Rightarrow> chain_input \<Rightarrow> 's \<Rightarrow> string outcome \<times> 's) \<Rightarrow> string list \<Rightarrow> string option list \<Rightarrow>
   (chain_input, 's) world \<Rightarrow> string option list outcome \<times> (chain_input, 's) world" where
  "summarize_chunks jitter fallback_model llm [] summaries w = (Returns summaries, w)"
| "summarize_chunks jitter fallback_model llm (chunk # rest) summaries w =
     (case process_with_retry jitter fallback_model (llm SummaryChain) (DocChunk chunk) 3 w of
        (Returns summary, w1) \<Rightarrow>
          summarize_chunks jitter fallback_model llm rest (summaries @ [summary]) w1
      | (Raises e, w1) \<Rightarrow> (Raises e, w1))"

definition generate_document_summary ::
  "(nat \<Rightarrow> real) \<Rightarrow> (chain_input \<Rightarrow> nat \<Rightarrow> string) \<Rightarrow> string list \<Rightarrow>
   (chain \<Rightarrow> chain_input \<Rightarrow> 's \<Rightarrow> string outcome \<times> 's) \<Rightarrow>
   (chain_input, 's) world \<Rightarrow> string option outcome \<times> (chain_input, 's) world" where
  "generate_document_summary jitter fallback_model document_chunks llm w =
     (case summarize_chunks jitter fallback_model llm document_chunks [] w of
        (Raises e, w1) \<Rightarrow> (Raises e, w1)
      | (Returns summaries, w1) \<Rightarrow>
          (case str_join summaries of
             Raises e \<Rightarrow> (Raises e, w1)
           | Returns combined_summary \<Rightarrow>
               process_with_retry jitter fallback_model (llm FinalSummaryChain)
                 (CombinedSummary combined_summary) 3 w1))"

text \<open>
  The specification's description of the same function, written from its words and not
  from the code: map the guarded per-chunk call over the chunks in list order, each call
  seeing only its own chunk; collect the results; join them; apply the guarded final call
  to the joined text. \<open>map_in_order\<close> is the map of a call that changes the world and may
  raise.
\<close>

fun map_in_order ::
  "('x \<Rightarrow> 'w \<Rightarrow> 'y outcome \<times> 'w) \<Rightarrow> 'x list \<Rightarrow> 'w \<Rightarrow> 'y list outcome \<times> 'w" where
  "map_in_order f [] w = (Returns [], w)"
| "map_in_order f (x # xs) w =
     (case f x w of
        (Raises e, w1) \<Rightarrow> (Raises e, w1)
      | (Returns y, w1) \<Rightarrow>
          (case map_in_order f xs w1 of
             (Raises e, w2) \<Rightarrow> (Raises e, w2)
           | (Returns ys, w2) \<Rightarrow> (Returns (y # ys), w2)))"

definition summary_spec ::
  "(nat \<Rightarrow> real) \<Rightarrow> (chain_input \<Rightarrow> nat \<Rightarrow> string) \<Rightarrow> string list \<Rightarrow>
   (chain \<Rightarrow> chain_input \<Rightarrow> 's \<Rightarrow> string outcome \<times> 's) \<Rightarrow>
   (chain_input, 's) world \<Rightarrow> string option outcome \<times> (chain_input, 's) world" where
  "summary_spec jitter fallback_model document_chunks llm w =
     (case map_in_order
             (\<lambda>chunk. process_with_retry jitter fallback_model (llm SummaryChain)
                         (DocChunk chunk) 3)
             document_chunks w of
        (Raises e, w1) \<Rightarrow> (Raises e, w1)
      | (Returns summaries, w1) \<Rightarrow>
          (case str_join summaries of
             Raises e \<Rightarrow> (Raises e, w1)
           | Returns combined \<Rightarrow>
               process_with_retry jitter fallback_model (llm FinalSummaryChain)
                 (CombinedSummary combined) 3 w1))"

text \<open>
  A hosted model for examples: it always answers, marks a chunk summary with \<open>S\<close> and a
  final summary with \<open>F\<close>, and counts its calls.
\<close>

definition echo_reply :: "chain \<Rightarrow> chain_input \<Rightarrow> string" where
  "echo_reply c inp =
     (case inp of
        DocChunk t \<Rightarrow> ''S('' @ t @ '')''
      | CombinedSummary t \<Rightarrow> ''F('' @ t @ '')'')"

definition echo_llm :: "chain \<Rightarrow> chain_input \<Rightarrow> nat \<Rightarrow> string outcome \<times> nat" where
  "echo_llm c inp n = (Returns (echo_reply c inp), Suc n)"

section \<open>DocumentR.py: file upload\<close>

text \<open>
  \<^verbatim>\<open>
  def upload_file_to_firebase(user_id, file):
      try:
          bucket = storage.bucket()
          blob_name = f"documents/{user_id}/{datetime.now().strftime('%Y%m%d_%H%M%S')}_{file.name}"
          blob = bucket.blob(blob_name)
          blob.upload_from_string(file.getvalue(), content_type=file.type)
          blob.make_public()
          return blob.public_url
      except Exception as e:
          st.error(f"Error uploading file: {str(e)}")
          return None
  \<close>
  The storage service is an argument: each of its operations either raises or succeeds.
  \<open>module_globals\<close> lists the names that the module binds at top level, which are its
  imports (lines 1 to 20 of the file) and its function definitions; \<open>upload_locals\<close> lists
  the names bound inside the function. Looking up a name that is in neither list raises a
  \<open>NameError\<close> (Python's builtins have no \<open>datetime\<close>). The text \<open>timestamp\<close> stands for
  what \<open>datetime.now().strftime(...)\<close> would give once the name is found.
\<close>

record uploaded_file =
  file_name :: string
  file_type :: string
  file_value :: string

record storage_service =
  storage_bucket :: "py_error + unit"
  upload_from_string :: "string \<Rightarrow> string \<Rightarrow> string \<Rightarrow> py_error + unit"
  make_public :: "string \<Rightarrow> py_error + unit"
  public_url :: "string \<Rightarrow> string"

definition module_globals :: "string list" where
  "module_globals =
     [''st'', ''firebase_admin'', ''credentials'', ''firestore'', ''auth'', ''storage'',
      ''PyPDF2'', ''docx'', ''io'', ''BytesIO'', ''Image'', ''ImageDraw'', ''pytesseract'',
      ''ChatPromptTemplate'', ''ChatGoogleGenerativeAI'', ''StrOutputParser'',
      ''RunnablePassthrough'', ''ConversationBufferMemory'', ''base64'',
      ''RecursiveCharacterTextSplitter'', ''time'', ''random'', ''pipeline'', ''json'',
      ''init_firebase_admin'', ''get_llm'', ''extract_text_from_file'', ''generate_thumbnail'',
      ''chunk_text'', ''process_with_retry'', ''get_fallback_model'',
      ''upload_file_to_firebase'', ''generate_document_summary'', ''query_documents'',
      ''main'']"

definition upload_locals :: "string list" where
  "upload_locals = [''user_id'', ''file'', ''bucket'', ''blob_name'', ''blob'', ''e'']"

definition load_name :: "string \<Rightarrow> py_error + unit" where
  "load_name name =
     (if name \<in> set upload_locals \<or> name \<in> set module_globals then Inr ()
      else Inl (NameError name))"

text \<open>The body of the \<open>try\<close> block: \<open>Inl\<close> is an exception raised inside it.\<close>

definition upload_body ::
  "storage_service \<Rightarrow> string \<Rightarrow> string \<Rightarrow> uploaded_file \<Rightarrow> py_error + string" where
  "upload_body storage timestamp user_id file =
     (case storage_bucket storage of
        Inl e \<Rightarrow> Inl e
      | Inr bucket \<Rightarrow>
          (case load_name ''datetime'' of
             Inl e \<Rightarrow> Inl e
           | Inr dt \<Rightarrow>
               let blob_name =
                     ''documents/'' @ user_id @ ''/'' @ timestamp @ ''_'' @ file_name file
               in (case upload_from_string storage blob_name (file_value file) (file_type file) of
                     Inl e \<Rightarrow> Inl e
                   | Inr u \<Rightarrow>
                       (case make_public storage blob_name of
                          Inl e \<Rightarrow> Inl e
                        | Inr p \<Rightarrow> Inr (public_url storage blob_name)))))"

text \<open>
  The function returns the URL, or \<open>None\<close> after showing the error; the second component
  lists the exceptions shown with \<open>st.error\<close>.
\<close>

definition upload_file_to_firebase ::
  "storage_service \<Rightarrow> string \<Rightarrow> string \<Rightarrow> uploaded_file \<Rightarrow> string option \<times> py_error list" where
  "upload_file_to_firebase storage timestamp user_id file =
     (case upload_body storage timestamp user_id file of
        Inr url \<Rightarrow> (Some url, [])
      | Inl e \<Rightarrow> (None, [e]))"

text \<open>
  The record that the upload page stores for a file:
  \<^verbatim>\<open>
  file_url = upload_file_to_firebase(user_id, file)
  text = extract_text_from_file(file)
  text_chunks = chunk_text(text)
  ...
  user_ref.collection('documents').add({
      'filename': file.name, 'file_url': file_url, 'uploaded_at': firestore.SERVER_TIMESTAMP,
      'type': file.type, 'text_content': text, 'chunk_count': len(text_chunks)})
  \<close>
  The extracted text and its chunks come from libraries outside the model and are
  arguments; the server's timestamp is left out.
\<close>

record document_record =
  filename :: string
  file_url :: "string option"
  doc_type :: string
  text_content :: string
  chunk_count :: nat

definition document_info ::
  "storage_service \<Rightarrow> string \<Rightarrow> string \<Rightarrow> uploaded_file \<Rightarrow> string \<Rightarrow> string list \<Rightarrow>
   document_record" where
  "document_info storage timestamp user_id file text text_chunks =
     (let file_url = fst (upload_file_to_firebase storage timestamp user_id file)
      in \<lparr>filename = file_name file, file_url = file_url, doc_type = file_type file,
          text_content = text, chunk_count = length text_chunks\<rparr>)"

section \<open>Properties of the tax calculators\<close>

text \<open>
  C6. Under the standard rules the tax is the income times 0.27 and the rate is 0.27,
  for every income, with no bracketing.
\<close>

theorem business_tax_flat:
  "calculate_business_tax income = (income * 0.27, 0.27)"
  by (simp add: calculate_business_tax_def)

subsection \<open>Small business brackets\<close>

lemma bracket_cases:
  assumes "(mn, mx, r, b) \<in> set tax_brackets"
  obtains "mn = 0" "mx = Fin 91250" "r = 0" "b = 0"
  | "mn = 91251" "mx = Fin 365000" "r = 0.07" "b = 0"
  | "mn = 365001" "mx = Fin 550000" "r = 0.21" "b = 19162.50"
  | "mn = 550001" "mx = Infinite" "r = 0.28" "b = 58037.50"
  using assms unfolding tax_brackets_def
  by (simp only: list.set insert_iff empty_iff prod.inject) blast

text \<open>
  The brackets do not overlap, so the first bracket that contains the income is the only
  one that does, and the loop returns that bracket's formula.
\<close>

lemma in_bracket:
  assumes "(mn, mx, r, b) \<in> set tax_brackets" "mn \<le> x" "at_most x mx"
  shows "calculate_small_business_tax x = (b + (x - mn + 1) * r, r)"
  using assms(1)
proof (cases rule: bracket_cases)
  case 1
  from assms(2,3) have "0 \<le> x" "x \<le> 91250" unfolding 1 by simp_all
  then show ?thesis unfolding 1
    by (simp add: calculate_small_business_tax_def tax_brackets_def)
next
  case 2
  from assms(2,3) have "91251 \<le> x" "x \<le> 365000" unfolding 2 by simp_all
  then show ?thesis unfolding 2
    by (simp add: calculate_small_business_tax_def tax_brackets_def)
next
  case 3
  from assms(2,3) have "365001 \<le> x" "x \<le> 550000" unfolding 3 by simp_all
  then show ?thesis unfolding 3
    by (simp add: calculate_small_business_tax_def tax_brackets_def)
next
  case 4
  from assms(2) have "550001 \<le> x" unfolding 4 by simp
  then show ?thesis unfolding 4
    by (simp add: calculate_small_business_tax_def tax_brackets_def)
qed

text \<open>
  C1. For every income inside one of the four brackets (bounds inclusive), the result is
  \<open>base_tax + (income - range_min + 1) * rate\<close> for that bracket, with the bracket's
  rate. For an income of 91,251 the tax is 0.07; for an income of 600,000 it is 72,037.50.
\<close>

theorem small_business_tax_in_bracket:
  "(\<forall>income min_income max_income rate base_tax.
      (min_income, max_income, rate, base_tax) \<in> set tax_brackets \<and>
      min_income \<le> income \<and> at_most income max_income \<longrightarrow>
      calculate_small_business_tax income =
        (base_tax + (income - min_income + 1) * rate, rate))
   \<and> calculate_small_business_tax 91251 = (0.07, 0.07)
   \<and> calculate_small_business_tax 600000 = (72037.50, 0.28)"
proof (intro conjI allI impI)
  fix income min_income max_income rate base_tax
  assume "(min_income, max_income, rate, base_tax) \<in> set tax_brackets \<and>
      min_income \<le> income \<and> at_most income max_income"
  then show "calculate_small_business_tax income =
        (base_tax + (income - min_income + 1) * rate, rate)"
    using in_bracket by blast
next
  show "calculate_small_business_tax 91251 = (0.07, 0.07)"
    by (simp add: calculate_small_business_tax_def tax_brackets_def)
next
  show "calculate_small_business_tax 600000 = (72037.50, 0.28)"
    by (simp add: calculate_small_business_tax_def tax_brackets_def)
qed

theorem small_business_tax_in_bracket_witness:
  "(91251, Fin 365000, 0.07, 0) \<in> set tax_brackets \<and> (91251::real) \<le> 100000 \<and>
   at_most 100000 (Fin 365000) \<and>
   calculate_small_business_tax 100000 = (612.50, 0.07)"
proof -
  have h: "(91251, Fin 365000, 0.07, 0) \<in> set tax_brackets \<and> (91251::real) \<le> 100000 \<and>
           at_most 100000 (Fin 365000)"
    by (simp add: tax_brackets_def)
  from small_business_tax_in_bracket
  have "calculate_small_business_tax 100000 = (0 + (100000 - 91251 + 1) * 0.07, 0.07)"
    using h by blast
  then show ?thesis using h by simp
qed

text \<open>
  C5. The claim is that every non-negative income matches a bracket, so that the trailing
  \<open>return 0, 0\<close> is never reached. The bracket bounds are whole numbers one unit apart
  (91,250 and 91,251; 365,000 and 365,001; 550,000 and 550,001), while incomes are entered
  with two decimals. An income of 365,000.50 lies between two brackets: the loop ends
  without returning and the function answers \<open>(0, 0)\<close>.
\<close>

theorem small_business_tax_gap:
  "bracket_loop tax_brackets 365000.50 = None \<and>
   calculate_small_business_tax 365000.50 = (0, 0)"
  by (simp add: calculate_small_business_tax_def tax_brackets_def)

section \<open>Properties of the depreciation schedule\<close>

text \<open>
  C4. For an asset with cost at least 0, expected life above 0 and a non-negative number
  of years owned, the calculation succeeds, the accumulated depreciation is at most the
  cost and the current value is not negative.
\<close>

theorem depreciation_bounded:
  assumes "0 \<le> purchase_cost row" "0 < expected_life row" "0 \<le> years_owned now row"
  shows "\<exists>d. calculate_depreciation now row = Inr d \<and>
             accumulated_depreciation d \<le> purchase_cost row \<and> 0 \<le> current_value d"
  using assms by (simp add: calculate_depreciation_def Let_def)

theorem depreciation_bounded_witness:
  "0 \<le> purchase_cost \<lparr>purchase_date = 0, purchase_cost = 900, expected_life = 3\<rparr> \<and>
   0 < expected_life \<lparr>purchase_date = 0, purchase_cost = 900, expected_life = 3\<rparr> \<and>
   0 \<le> years_owned (1460 * 86400000000)
          \<lparr>purchase_date = 0, purchase_cost = 900, expected_life = 3\<rparr> \<and>
   (\<exists>d. calculate_depreciation (1460 * 86400000000)
          \<lparr>purchase_date = 0, purchase_cost = 900, expected_life = 3\<rparr> = Inr d \<and>
        accumulated_depreciation d \<le> 900 \<and> 0 \<le> current_value d)"
  using depreciation_bounded [of "\<lparr>purchase_date = 0, purchase_cost = 900, expected_life = 3\<rparr>"
                                 "1460 * 86400000000"]
  by (simp add: years_owned_def timedelta_days_def)

text \<open>
  C7. For an asset with expected life above 0 the calculation yields
  \<open>annual = cost / life\<close>, \<open>accumulated = min (years_owned * annual) cost\<close> and
  \<open>current value = max (cost - accumulated) 0\<close>. With cost 10,000, life 5 and 2 years
  owned it yields 2,000, 4,000 and 6,000.
\<close>

theorem depreciation_formula:
  "(\<forall>now row. 0 < expected_life row \<longrightarrow>
      calculate_depreciation now row =
        Inr \<lparr>annual_depreciation = purchase_cost row / real_of_int (expected_life row),
             accumulated_depreciation =
               min (years_owned now row * (purchase_cost row / real_of_int (expected_life row)))
                   (purchase_cost row),
             current_value =
               max (purchase_cost row -
                    min (years_owned now row *
                           (purchase_cost row / real_of_int (expected_life row)))
                        (purchase_cost row)) 0\<rparr>)
   \<and> (\<forall>now row. purchase_cost row = 10000 \<and> expected_life row = 5 \<and>
                 years_owned now row = 2 \<longrightarrow>
        calculate_depreciation now row =
          Inr \<lparr>annual_depreciation = 2000, accumulated_depreciation = 4000,
               current_value = 6000\<rparr>)"
  by (simp add: calculate_depreciation_def Let_def)

theorem depreciation_formula_witness:
  "purchase_cost \<lparr>purchase_date = 5, purchase_cost = 10000, expected_life = 5\<rparr> = 10000 \<and>
   expected_life \<lparr>purchase_date = 5, purchase_cost = 10000, expected_life = 5\<rparr> = 5 \<and>
   years_owned (730 * 86400000000 + 5)
     \<lparr>purchase_date = 5, purchase_cost = 10000, expected_life = 5\<rparr> = 2 \<and>
   calculate_depreciation (730 * 86400000000 + 5)
     \<lparr>purchase_date = 5, purchase_cost = 10000, expected_life = 5\<rparr> =
     Inr \<lparr>annual_depreciation = 2000, accumulated_depreciation = 4000, current_value = 6000\<rparr>"
proof -
  let ?row = "\<lparr>purchase_date = 5, purchase_cost = 10000, expected_life = 5\<rparr>"
  let ?now = "730 * 86400000000 + 5 :: int"
  have h: "purchase_cost ?row = 10000 \<and> expected_life ?row = 5 \<and> years_owned ?now ?row = 2"
    by (simp add: years_owned_def timedelta_days_def)
  from depreciation_formula
  have "purchase_cost ?row = 10000 \<and> expected_life ?row = 5 \<and> years_owned ?now ?row = 2 \<longrightarrow>
        calculate_depreciation ?now ?row =
          Inr \<lparr>annual_depreciation = 2000, accumulated_depreciation = 4000,
               current_value = 6000\<rparr>"
    by blast
  with h show ?thesis by blast
qed

section \<open>Taxable income\<close>

subsection \<open>Evaluating the rounding\<close>







subsection \<open>The two pages\<close>






section \<open>Properties of the retry policy\<close>

subsection \<open>Traces and attempts\<close>

lemma fallback_calls_append [simp]:
  "fallback_calls (xs @ ys) = fallback_calls xs @ fallback_calls ys"
  by (induction xs rule: fallback_calls.induct) simp_all

lemma retried_trace_0 [simp]: "retried_trace jitter args d a 0 = []"
  by (simp add: retried_trace_def)

lemma retried_trace_Suc:
  "retried_trace jitter args d a (Suc k) =
     [Call args, Sleep (2 ^ a + jitter d)] @ retried_trace jitter args (Suc d) (Suc a) k"
proof -
  have "[0..<Suc k] = 0 # map Suc [0..<k]"
    by (simp add: upt_conv_Cons map_Suc_upt del: upt_Suc)
  then show ?thesis
    by (simp add: retried_trace_def comp_def del: upt_Suc)
qed

lemma fallback_calls_retried [simp]:
  "fallback_calls (retried_trace jitter args d a k) = []"
  by (induction k arbitrary: d a) (simp_all add: retried_trace_Suc)

lemma attempts_length [simp]: "length (attempts func args n s) = n"
  by (induction n arbitrary: s) (simp_all split: prod.splits)

lemma attempts_Suc_right:
  "attempts func args (Suc n) s =
     attempts func args n s @ [fst (func args (service_after func args n s))]"
proof (induction n arbitrary: s)
  case 0
  show ?case by (simp split: prod.splits)
next
  case (Suc n)
  obtain out s' where f: "func args s = (out, s')" by force
  have "attempts func args (Suc (Suc n)) s = out # attempts func args (Suc n) s'"
    using f by simp
  also have "\<dots> = out # (attempts func args n s' @
                        [fst (func args (service_after func args n s'))])"
    by (simp only: Suc.IH)
  also have "\<dots> = attempts func args (Suc n) s @
                    [fst (func args (service_after func args (Suc n) s))]"
    using f by simp
  finally show ?case .
qed

lemma retry_loop_backoff:
  assumes "func args (service w) = (Raises e, s')" "contains e ''429''" "attempt < max_retries - 1"
  shows "retry_loop jitter fb func args max_retries (attempt # rest) w =
         retry_loop jitter fb func args max_retries rest
           \<lparr>service = s',
            trace = trace w @ [Call args, Sleep (2 ^ attempt + jitter (random_draws w))],
            random_draws = Suc (random_draws w)\<rparr>"
  using assms by (cases w) (simp add: call_def random_random_def time_sleep_def)

lemma retry_loop_rate_limited:
  assumes "attempts func args (length es) (service w) = map Raises es"
    and "\<forall>e\<in>set es. contains e ''429''"
    and "a + length es \<le> max_retries - 1"
  shows "retry_loop jitter fb func args max_retries ([a..<a + length es] @ rest) w =
         retry_loop jitter fb func args max_retries rest
           \<lparr>service = service_after func args (length es) (service w),
            trace = trace w @ retried_trace jitter args (random_draws w) a (length es),
            random_draws = random_draws w + length es\<rparr>"
  using assms
proof (induction es arbitrary: a w)
  case Nil
  show ?case by (cases w) simp
next
  case (Cons e es)
  obtain out s' where f: "func args (service w) = (out, s')" by (cases "func args (service w)")
  with Cons.prems(1) have out: "out = Raises e"
    and rest_att: "attempts func args (length es) s' = map Raises es" by simp_all
  let ?w1 = "\<lparr>service = s',
              trace = trace w @ [Call args, Sleep (2 ^ a + jitter (random_draws w))],
              random_draws = Suc (random_draws w)\<rparr>"
  have upt: "[a..<a + length (e # es)] = a # [Suc a..<Suc a + length es]"
    by (simp add: upt_conv_Cons del: upt_Suc)
  have step: "retry_loop jitter fb func args max_retries (a # [Suc a..<Suc a + length es] @ rest) w =
        retry_loop jitter fb func args max_retries ([Suc a..<Suc a + length es] @ rest) ?w1"
    using f out Cons.prems by (intro retry_loop_backoff) auto
  have ih: "retry_loop jitter fb func args max_retries ([Suc a..<Suc a + length es] @ rest) ?w1 =
        retry_loop jitter fb func args max_retries rest
           \<lparr>service = service_after func args (length es) (service ?w1),
            trace = trace ?w1 @ retried_trace jitter args (random_draws ?w1) (Suc a) (length es),
            random_draws = random_draws ?w1 + length es\<rparr>"
    using rest_att Cons.prems by (intro Cons.IH) auto
  show ?case
    unfolding upt using step ih f
    by (simp add: retried_trace_Suc del: upt_Suc)
qed

text \<open>The last attempt of the loop.\<close>

lemma retry_loop_last_returns:
  assumes "func args (service w) = (Returns v, s')"
  shows "retry_loop jitter fb func args max_retries (attempt # rest) w =
         (Returns (Some v), \<lparr>service = s', trace = trace w @ [Call args],
                              random_draws = random_draws w\<rparr>)"
  using assms by (cases w) (simp add: call_def)

lemma retry_loop_last_raises:
  assumes "func args (service w) = (Raises e, s')" "attempt = max_retries - 1"
  shows "retry_loop jitter fb func args max_retries (attempt # rest) w =
         (Returns (Some (fb args 100)),
          \<lparr>service = s',
           trace = trace w @ [Call args,
                     Warning ''API limit reached. Falling back to local model.'',
                     Fallback args 100],
           random_draws = random_draws w\<rparr>)"
  using assms by (cases w) (simp add: call_def st_warning_def call_fallback_def)

lemma retry_loop_reraises:
  assumes "func args (service w) = (Raises e, s')" "\<not> contains e ''429''"
    "attempt \<noteq> max_retries - 1"
  shows "retry_loop jitter fb func args max_retries (attempt # rest) w =
         (Raises e, \<lparr>service = s', trace = trace w @ [Call args],
                     random_draws = random_draws w\<rparr>)"
  using assms by (cases w) (simp add: call_def)

text \<open>A run that starts with \<open>k\<close> rate-limited failures, with more attempts left.\<close>

lemma process_with_retry_prefix:
  assumes att: "attempts func args (Suc k) (service w) = map Raises es @ [out]"
    and rl: "\<forall>e\<in>set es. contains e ''429''"
    and k: "k < max_retries"
  shows "length es = k"
    and "fst (func args (service_after func args k (service w))) = out"
    and "process_with_retry jitter fb func args max_retries w =
         retry_loop jitter fb func args max_retries [k..<max_retries]
           \<lparr>service = service_after func args k (service w),
            trace = trace w @ retried_trace jitter args (random_draws w) 0 k,
            random_draws = random_draws w + k\<rparr>"
proof -
  have "Suc k = length (attempts func args (Suc k) (service w))"
    by (simp only: attempts_length)
  also have "\<dots> = length (map Raises es @ [out])"
    by (simp only: att)
  finally show len: "length es = k" by simp
  from att have split: "attempts func args k (service w) @
        [fst (func args (service_after func args k (service w)))] = map Raises es @ [out]"
    by (simp only: attempts_Suc_right)
  with len have pre: "attempts func args (length es) (service w) = map Raises es"
    and "fst (func args (service_after func args k (service w))) = out"
    by simp_all
  then show "fst (func args (service_after func args k (service w))) = out" by simp
  have "[0..<k + (max_retries - k)] = [0..<k] @ [k..<k + (max_retries - k)]"
    by (rule upt_add_eq_append) simp
  then have "[0..<max_retries] = [0..<0 + length es] @ [k..<max_retries]"
    using k len by simp
  moreover have "0 + length es \<le> max_retries - 1" using k len by simp
  ultimately show "process_with_retry jitter fb func args max_retries w =
         retry_loop jitter fb func args max_retries [k..<max_retries]
           \<lparr>service = service_after func args k (service w),
            trace = trace w @ retried_trace jitter args (random_draws w) 0 k,
            random_draws = random_draws w + k\<rparr>"
    using retry_loop_rate_limited [OF pre rl, of 0 max_retries jitter fb "[k..<max_retries]"] len
    by (simp add: process_with_retry_def)
qed

lemma service_after_Suc_right:
  "service_after func args (Suc n) s = snd (func args (service_after func args n s))"
  by (induction n arbitrary: s) simp_all

lemma run_succeeds:
  assumes att: "attempts func args (Suc k) (service w) = map Raises es @ [Returns v]"
    and rl: "\<forall>e\<in>set es. contains e ''429''"
    and k: "k < max_retries"
  shows "process_with_retry jitter fb func args max_retries w =
         (Returns (Some v),
          \<lparr>service = service_after func args (Suc k) (service w),
           trace = trace w @ retried_trace jitter args (random_draws w) 0 k @ [Call args],
           random_draws = random_draws w + k\<rparr>)"
proof -
  let ?s = "service_after func args k (service w)"
  note pre = process_with_retry_prefix [OF att rl k]
  have f: "func args ?s = (Returns v, service_after func args (Suc k) (service w))"
    using pre(2) by (simp only: service_after_Suc_right prod_eq_iff fst_conv snd_conv)
  have "[k..<max_retries] = k # [Suc k..<max_retries]"
    using k by (simp add: upt_conv_Cons)
  then show ?thesis
    using pre(3) [of jitter fb] retry_loop_last_returns [of func args _ v _ jitter fb max_retries k, OF _]
      f by simp
qed

lemma run_falls_back:
  assumes att: "attempts func args (Suc k) (service w) = map Raises es @ [Raises e]"
    and rl: "\<forall>e\<in>set es. contains e ''429''"
  shows "process_with_retry jitter fb func args (Suc k) w =
         (Returns (Some (fb args 100)),
          \<lparr>service = service_after func args (Suc k) (service w),
           trace = trace w @ retried_trace jitter args (random_draws w) 0 k @
                   [Call args, Warning ''API limit reached. Falling back to local model.'',
                    Fallback args 100],
           random_draws = random_draws w + k\<rparr>)"
proof -
  let ?s = "service_after func args k (service w)"
  have k: "k < Suc k" by simp
  note pre = process_with_retry_prefix [OF att rl k]
  have f: "func args ?s = (Raises e, service_after func args (Suc k) (service w))"
    using pre(2) by (simp only: service_after_Suc_right prod_eq_iff fst_conv snd_conv)
  have "[k..<Suc k] = [k]" by simp
  then show ?thesis
    using pre(3) [of jitter fb] f
      retry_loop_last_raises [of func args _ e _ k "Suc k" jitter fb "[]"]
    by simp
qed

lemma run_reraises:
  assumes att: "attempts func args (Suc k) (service w) = map Raises es @ [Raises e]"
    and rl: "\<forall>e\<in>set es. contains e ''429''"
    and e: "\<not> contains e ''429''"
    and k: "Suc k < max_retries"
  shows "process_with_retry jitter fb func args max_retries w =
         (Raises e,
          \<lparr>service = service_after func args (Suc k) (service w),
           trace = trace w @ retried_trace jitter args (random_draws w) 0 k @ [Call args],
           random_draws = random_draws w + k\<rparr>)"
proof -
  let ?s = "service_after func args k (service w)"
  have k': "k < max_retries" using k by simp
  note pre = process_with_retry_prefix [OF att rl k']
  have f: "func args ?s = (Raises e, service_after func args (Suc k) (service w))"
    using pre(2) by (simp only: service_after_Suc_right prod_eq_iff fst_conv snd_conv)
  have "[k..<max_retries] = k # [Suc k..<max_retries]"
    using k by (simp add: upt_conv_Cons)
  moreover have "k \<noteq> max_retries - 1" using k by simp
  ultimately show ?thesis
    using pre(3) [of jitter fb] f e
      retry_loop_reraises [of func args _ e _ k max_retries jitter fb "[Suc k..<max_retries]"]
    by simp
qed



text \<open>
  C2. Let \<open>N\<close> be the maximum attempt count (at least 1, so that there is an attempt to
  speak of). If the work fails with a rate-limit signal (text containing \<open>429\<close>) on
  attempts 1 to \<open>N - 1\<close> and succeeds on attempt \<open>N\<close>, the success value is returned and the
  fallback model is not called. If all \<open>N\<close> attempts fail with a rate-limit signal, the
  fallback model is called exactly once, after a warning, and its output is returned.
  In both cases each failed attempt but the last is followed, before the next attempt, by
  a sleep of \<open>2 ^ attempt\<close> seconds plus a random value, where \<open>attempt\<close> is the loop
  variable of the source, counting from 0.
\<close>

theorem retry_rate_limit_policy:
  "(attempts func args N (service w) = map Raises es @ [Returns v] \<and>
    (\<forall>e\<in>set es. contains e ''429'') \<longrightarrow>
      process_with_retry jitter fb func args N w =
        (Returns (Some v),
         \<lparr>service = service_after func args N (service w),
          trace = trace w @ retried_trace jitter args (random_draws w) 0 (N - 1) @ [Call args],
          random_draws = random_draws w + (N - 1)\<rparr>) \<and>
      fallback_calls (trace (snd (process_with_retry jitter fb func args N w))) =
        fallback_calls (trace w))
   \<and>
   (0 < N \<and> attempts func args N (service w) = map Raises es \<and>
    (\<forall>e\<in>set es. contains e ''429'') \<longrightarrow>
      process_with_retry jitter fb func args N w =
        (Returns (Some (fb args 100)),
         \<lparr>service = service_after func args N (service w),
          trace = trace w @ retried_trace jitter args (random_draws w) 0 (N - 1) @
                  [Call args, Warning ''API limit reached. Falling back to local model.'',
                   Fallback args 100],
          random_draws = random_draws w + (N - 1)\<rparr>) \<and>
      fallback_calls (trace (snd (process_with_retry jitter fb func args N w))) =
        fallback_calls (trace w) @ [(args, 100)])"
proof (intro conjI impI)
  assume h: "attempts func args N (service w) = map Raises es @ [Returns v] \<and>
    (\<forall>e\<in>set es. contains e ''429'')"
  have "N = length (attempts func args N (service w))"
    by (simp only: attempts_length)
  also have "\<dots> = Suc (length es)" using h by simp
  finally obtain k where N: "N = Suc k" by blast
  from h N have att: "attempts func args (Suc k) (service w) = map Raises es @ [Returns v]"
    by simp
  have run: "process_with_retry jitter fb func args N w =
        (Returns (Some v),
         \<lparr>service = service_after func args N (service w),
          trace = trace w @ retried_trace jitter args (random_draws w) 0 (N - 1) @ [Call args],
          random_draws = random_draws w + (N - 1)\<rparr>)"
    using run_succeeds [OF att, of N jitter fb] h N by simp
  then show "process_with_retry jitter fb func args N w =
        (Returns (Some v),
         \<lparr>service = service_after func args N (service w),
          trace = trace w @ retried_trace jitter args (random_draws w) 0 (N - 1) @ [Call args],
          random_draws = random_draws w + (N - 1)\<rparr>)" .
  from run show "fallback_calls (trace (snd (process_with_retry jitter fb func args N w))) =
        fallback_calls (trace w)" by simp
next
  assume h: "0 < N \<and> attempts func args N (service w) = map Raises es \<and>
    (\<forall>e\<in>set es. contains e ''429'')"
  have "length es = length (attempts func args N (service w))" using h by simp
  then have len: "length es = N" by (simp only: attempts_length)
  with h have ne: "es \<noteq> []" by auto
  then have es: "es = butlast es @ [last es]" by simp
  have att: "attempts func args N (service w) = map Raises (butlast es) @ [Raises (last es)]"
    using h es by (metis list.simps(8,9) map_append)
  have rl: "\<forall>e\<in>set (butlast es). contains e ''429''"
    using h by (auto dest: in_set_butlastD)
  from h obtain k where N: "N = Suc k" by (cases N) auto
  have run: "process_with_retry jitter fb func args N w =
        (Returns (Some (fb args 100)),
         \<lparr>service = service_after func args N (service w),
          trace = trace w @ retried_trace jitter args (random_draws w) 0 (N - 1) @
                  [Call args, Warning ''API limit reached. Falling back to local model.'',
                   Fallback args 100],
          random_draws = random_draws w + (N - 1)\<rparr>)"
    using run_falls_back [OF att [unfolded N] rl, of jitter fb] by (simp add: N)
  then show "process_with_retry jitter fb func args N w =
        (Returns (Some (fb args 100)),
         \<lparr>service = service_after func args N (service w),
          trace = trace w @ retried_trace jitter args (random_draws w) 0 (N - 1) @
                  [Call args, Warning ''API limit reached. Falling back to local model.'',
                   Fallback args 100],
          random_draws = random_draws w + (N - 1)\<rparr>)" .
  from run show "fallback_calls (trace (snd (process_with_retry jitter fb func args N w))) =
        fallback_calls (trace w) @ [(args, 100)]" by simp
qed

theorem retry_rate_limit_policy_witness:
  "(attempts (scripted [Raises ''HTTP 429'', Raises ''429 busy'', Returns ''ok''])
      ''chunk'' 3 (service idle) = map Raises [''HTTP 429'', ''429 busy''] @ [Returns ''ok''] \<and>
    contains ''HTTP 429'' ''429'' \<and> contains ''429 busy'' ''429'' \<and>
    process_with_retry (\<lambda>n. 1 / 2) (\<lambda>args max_length. ''local'')
      (scripted [Raises ''HTTP 429'', Raises ''429 busy'', Returns ''ok'']) ''chunk'' 3 idle =
      (Returns (Some ''ok''),
       \<lparr>service = 3,
        trace = [Call ''chunk'', Sleep (3 / 2), Call ''chunk'', Sleep (5 / 2), Call ''chunk''],
        random_draws = 2\<rparr>))
   \<and>
   ((0::nat) < 3 \<and>
    attempts (scripted [Raises ''HTTP 429'', Raises ''429 busy'', Raises ''429 again''])
      ''chunk'' 3 (service idle) = map Raises [''HTTP 429'', ''429 busy'', ''429 again''] \<and>
    contains ''HTTP 429'' ''429'' \<and> contains ''429 busy'' ''429'' \<and> contains ''429 again'' ''429'' \<and>
    process_with_retry (\<lambda>n. 1 / 2) (\<lambda>args max_length. ''local'')
      (scripted [Raises ''HTTP 429'', Raises ''429 busy'', Raises ''429 again'']) ''chunk'' 3 idle =
      (Returns (Some ''local''),
       \<lparr>service = 3,
        trace = [Call ''chunk'', Sleep (3 / 2), Call ''chunk'', Sleep (5 / 2), Call ''chunk'',
                 Warning ''API limit reached. Falling back to local model.'',
                 Fallback ''chunk'' 100],
        random_draws = 2\<rparr>))"
proof -
  let ?f1 = "scripted [Raises ''HTTP 429'', Raises ''429 busy'', Returns ''ok'']"
  let ?f2 = "scripted [Raises ''HTTP 429'', Raises ''429 busy'', Raises ''429 again'']"
  have h1: "attempts ?f1 ''chunk'' 3 (service idle) =
              map Raises [''HTTP 429'', ''429 busy''] @ [Returns ''ok''] \<and>
            (\<forall>e\<in>set [''HTTP 429'', ''429 busy'']. contains e ''429'')"
    by (simp add: eval_nat_numeral scripted_def idle_def)
  have h2: "(0::nat) < 3 \<and>
            attempts ?f2 ''chunk'' 3 (service idle) =
              map Raises [''HTTP 429'', ''429 busy'', ''429 again''] \<and>
            (\<forall>e\<in>set [''HTTP 429'', ''429 busy'', ''429 again'']. contains e ''429'')"
    by (simp add: eval_nat_numeral scripted_def idle_def)
  note t1 = retry_rate_limit_policy [of ?f1 "''chunk''" 3 idle "[''HTTP 429'', ''429 busy'']"
      "''ok''" "\<lambda>n. 1 / 2" "\<lambda>args max_length. ''local''", THEN conjunct1, rule_format, OF h1,
      THEN conjunct1]
  note t2 = retry_rate_limit_policy [of ?f2 "''chunk''" 3 idle
      "[''HTTP 429'', ''429 busy'', ''429 again'']" _ "\<lambda>n. 1 / 2"
      "\<lambda>args max_length. ''local''", THEN conjunct2, rule_format, OF h2, THEN conjunct1]
  have s1: "service_after ?f1 ''chunk'' 3 (service idle) = 3"
    and s2: "service_after ?f2 ''chunk'' 3 (service idle) = 3"
    by (simp_all add: eval_nat_numeral scripted_def idle_def)
  have tr: "trace idle @ retried_trace (\<lambda>n. 1 / 2) ''chunk'' (random_draws idle) 0 (3 - 1) =
            [Call ''chunk'', Sleep (3 / 2), Call ''chunk'', Sleep (5 / 2)]"
    by (simp add: retried_trace_def idle_def upt_rec)
  have rd: "random_draws idle + (3 - 1) = 2" by (simp add: idle_def)
  have r1: "process_with_retry (\<lambda>n. 1 / 2) (\<lambda>args max_length. ''local'') ?f1 ''chunk'' 3 idle =
      (Returns (Some ''ok''),
       \<lparr>service = 3,
        trace = [Call ''chunk'', Sleep (3 / 2), Call ''chunk'', Sleep (5 / 2), Call ''chunk''],
        random_draws = 2\<rparr>)"
    using t1 tr unfolding s1 rd by (simp only: append_assoc [symmetric]) simp
  have r2: "process_with_retry (\<lambda>n. 1 / 2) (\<lambda>args max_length. ''local'') ?f2 ''chunk'' 3 idle =
      (Returns (Some ''local''),
       \<lparr>service = 3,
        trace = [Call ''chunk'', Sleep (3 / 2), Call ''chunk'', Sleep (5 / 2), Call ''chunk'',
                 Warning ''API limit reached. Falling back to local model.'',
                 Fallback ''chunk'' 100],
        random_draws = 2\<rparr>)"
    using t2 tr unfolding s2 rd by (simp only: append_assoc [symmetric]) simp
  have signals: "contains ''HTTP 429'' ''429''" "contains ''429 busy'' ''429''"
    "contains ''429 again'' ''429''"
    by simp_all
  from h1 h2 r1 r2 signals show ?thesis
    by - (elim conjE, intro conjI, assumption+)
qed


subsection \<open>Failures that are not rate-limit signals\<close>

text \<open>
  C3 as stated says that a failure without \<open>429\<close> in its text leads to the fallback
  model on whichever attempt it occurs. In the source the fallback branch is guarded by
  \<open>attempt == max_retries - 1\<close>; on an earlier attempt such a failure reaches
  \<open>else: raise e\<close>. With three attempts, a first attempt that fails with a 500 error ends
  the call with that exception, after one call of the work and none of the fallback.
\<close>

theorem non_rate_limit_counterexample:
  "\<not> contains ''500 Internal Server Error'' ''429'' \<and>
   process_with_retry (\<lambda>n. 1 / 2) (\<lambda>args max_length. ''local'')
     (scripted [Raises ''500 Internal Server Error'', Returns ''ok'']) ''chunk'' 3
     idle =
   (Raises ''500 Internal Server Error'',
    \<lparr>service = 1, trace = [Call ''chunk''], random_draws = 0\<rparr>)"
  by (simp add: process_with_retry_def upt_rec call_def scripted_def idle_def)

text \<open>
  C3, amended. A failure that is not a rate-limit signal delegates to the fallback model
  (with \<open>max_length = 100\<close>) and returns its output when it occurs on the last attempt;
  when it occurs on an earlier attempt, the exception is raised to the caller and the
  fallback model is not called. (An attempt is only reached after rate-limit failures of
  all attempts before it.)
\<close>

theorem non_rate_limit_failure:
  "(attempts func args N (service w) = map Raises es @ [Raises e] \<and>
    (\<forall>x\<in>set es. contains x ''429'') \<and> \<not> contains e ''429'' \<longrightarrow>
      fst (process_with_retry jitter fb func args N w) = Returns (Some (fb args 100)) \<and>
      fallback_calls (trace (snd (process_with_retry jitter fb func args N w))) =
        fallback_calls (trace w) @ [(args, 100)])
   \<and>
   (attempts func args (Suc k) (service w) = map Raises es @ [Raises e] \<and>
    (\<forall>x\<in>set es. contains x ''429'') \<and> \<not> contains e ''429'' \<and> Suc k < N \<longrightarrow>
      fst (process_with_retry jitter fb func args N w) = Raises e \<and>
      fallback_calls (trace (snd (process_with_retry jitter fb func args N w))) =
        fallback_calls (trace w))"
proof (intro conjI impI)
  assume h: "attempts func args N (service w) = map Raises es @ [Raises e] \<and>
    (\<forall>x\<in>set es. contains x ''429'') \<and> \<not> contains e ''429''"
  have "N = length (attempts func args N (service w))"
    by (simp only: attempts_length)
  also have "\<dots> = Suc (length es)" using h by simp
  finally obtain j where N: "N = Suc j" by blast
  from h N have att: "attempts func args (Suc j) (service w) = map Raises es @ [Raises e]"
    by simp
  from h have rl: "\<forall>x\<in>set es. contains x ''429''" by simp
  note run = run_falls_back [OF att rl, of jitter fb, folded N]
  from run show "fst (process_with_retry jitter fb func args N w) = Returns (Some (fb args 100))"
    by simp
  from run show "fallback_calls (trace (snd (process_with_retry jitter fb func args N w))) =
        fallback_calls (trace w) @ [(args, 100)]"
    by simp
next
  assume h: "attempts func args (Suc k) (service w) = map Raises es @ [Raises e] \<and>
    (\<forall>x\<in>set es. contains x ''429'') \<and> \<not> contains e ''429'' \<and> Suc k < N"
  then have att: "attempts func args (Suc k) (service w) = map Raises es @ [Raises e]"
    and rl: "\<forall>x\<in>set es. contains x ''429''" and e: "\<not> contains e ''429''" and k: "Suc k < N"
    by simp_all
  note run = run_reraises [OF att rl e k, of jitter fb]
  from run show "fst (process_with_retry jitter fb func args N w) = Raises e"
    by simp
  from run show "fallback_calls (trace (snd (process_with_retry jitter fb func args N w))) =
        fallback_calls (trace w)"
    by simp
qed

theorem non_rate_limit_failure_witness:
  "(attempts (scripted [Raises ''HTTP 429'', Raises ''429 busy'', Raises ''500 error''])
      ''chunk'' 3 (service idle) =
      map Raises [''HTTP 429'', ''429 busy''] @ [Raises ''500 error''] \<and>
    contains ''HTTP 429'' ''429'' \<and> contains ''429 busy'' ''429'' \<and>
    \<not> contains ''500 error'' ''429'' \<and>
    fst (process_with_retry (\<lambda>n. 1 / 2) (\<lambda>args max_length. ''local'')
           (scripted [Raises ''HTTP 429'', Raises ''429 busy'', Raises ''500 error''])
           ''chunk'' 3 idle) = Returns (Some ''local''))
   \<and>
   (attempts (scripted [Raises ''HTTP 429'', Raises ''500 error'', Returns ''ok''])
      ''chunk'' (Suc 1) (service idle) =
      map Raises [''HTTP 429''] @ [Raises ''500 error''] \<and>
    contains ''HTTP 429'' ''429'' \<and>
    \<not> contains ''500 error'' ''429'' \<and> Suc 1 < (3::nat) \<and>
    fst (process_with_retry (\<lambda>n. 1 / 2) (\<lambda>args max_length. ''local'')
           (scripted [Raises ''HTTP 429'', Raises ''500 error'', Returns ''ok''])
           ''chunk'' 3 idle) = Raises ''500 error'' \<and>
    fallback_calls (trace (snd (process_with_retry (\<lambda>n. 1 / 2) (\<lambda>args max_length. ''local'')
           (scripted [Raises ''HTTP 429'', Raises ''500 error'', Returns ''ok''])
           ''chunk'' 3 idle))) = [])"
proof -
  let ?f1 = "scripted [Raises ''HTTP 429'', Raises ''429 busy'', Raises ''500 error'']"
  let ?f2 = "scripted [Raises ''HTTP 429'', Raises ''500 error'', Returns ''ok'']"
  have h1: "attempts ?f1 ''chunk'' 3 (service idle) =
              map Raises [''HTTP 429'', ''429 busy''] @ [Raises ''500 error''] \<and>
            (\<forall>x\<in>set [''HTTP 429'', ''429 busy'']. contains x ''429'') \<and>
            \<not> contains ''500 error'' ''429''"
    by (simp add: eval_nat_numeral scripted_def idle_def)
  have h2: "attempts ?f2 ''chunk'' (Suc 1) (service idle) =
              map Raises [''HTTP 429''] @ [Raises ''500 error''] \<and>
            (\<forall>x\<in>set [''HTTP 429'']. contains x ''429'') \<and>
            \<not> contains ''500 error'' ''429'' \<and> Suc 1 < (3::nat)"
    by (simp add: eval_nat_numeral scripted_def idle_def)
  note t1 = non_rate_limit_failure [of ?f1 "''chunk''" 3 idle "[''HTTP 429'', ''429 busy'']"
      "''500 error''" "\<lambda>n. 1 / 2" "\<lambda>args max_length. ''local''", THEN conjunct1, rule_format, OF h1]
  note t2 = non_rate_limit_failure [of ?f2 "''chunk''" 3 idle "[''HTTP 429'']" "''500 error''"
      "\<lambda>n. 1 / 2" "\<lambda>args max_length. ''local''" 1, THEN conjunct2, rule_format, OF h2]
  have no_calls: "fallback_calls (trace idle) = []" by (simp add: idle_def)
  have signals: "contains ''HTTP 429'' ''429''" "contains ''429 busy'' ''429''"
    by simp_all
  from h1 h2 t1 t2 [unfolded no_calls] signals show ?thesis
    by - (elim conjE, intro conjI, assumption+)
qed

section \<open>Properties of the document summary\<close>

lemma summarize_chunks_map:
  "summarize_chunks jitter fb llm chunks acc w =
     (case map_in_order
             (\<lambda>chunk. process_with_retry jitter fb (llm SummaryChain) (DocChunk chunk) 3) chunks w of
        (Raises e, w1) \<Rightarrow> (Raises e, w1)
      | (Returns xs, w1) \<Rightarrow> (Returns (acc @ xs), w1))"
proof (induction chunks arbitrary: acc w)
  case Nil
  show ?case by simp
next
  case (Cons chunk rest)
  show ?case
    by (simp add: Cons.IH split: prod.splits outcome.splits)
qed

lemma first_attempt_returns:
  assumes "fst (func args (service w)) = Returns v"
  shows "process_with_retry jitter fb func args 3 w =
         (Returns (Some v), \<lparr>service = snd (func args (service w)),
                              trace = trace w @ [Call args],
                              random_draws = random_draws w\<rparr>)"
proof -
  have "[0..<3] = 0 # [1..<3]" by (simp add: upt_rec)
  moreover have "func args (service w) = (Returns v, snd (func args (service w)))"
    using assms by (simp add: prod_eq_iff)
  ultimately show ?thesis
    using retry_loop_last_returns [of func args w v _ jitter fb 3 0 "[1..<3]"]
    by (simp add: process_with_retry_def)
qed

lemma all_strings_Some [simp]: "all_strings (map Some xs) = Some xs"
  by (induction xs) simp_all

lemma summarize_chunks_answered:
  assumes "\<And>inp s. fst (llm SummaryChain inp s) = Returns (reply inp)"
  shows "fst (summarize_chunks jitter fb llm chunks acc w) =
           Returns (acc @ map (\<lambda>chunk. Some (reply (DocChunk chunk))) chunks) \<and>
         trace (snd (summarize_chunks jitter fb llm chunks acc w)) =
           trace w @ map (\<lambda>chunk. Call (DocChunk chunk)) chunks \<and>
         random_draws (snd (summarize_chunks jitter fb llm chunks acc w)) = random_draws w"
proof (induction chunks arbitrary: acc w)
  case Nil
  show ?case by simp
next
  case (Cons chunk rest)
  have "process_with_retry jitter fb (llm SummaryChain) (DocChunk chunk) 3 w =
         (Returns (Some (reply (DocChunk chunk))),
          \<lparr>service = snd (llm SummaryChain (DocChunk chunk) (service w)),
           trace = trace w @ [Call (DocChunk chunk)],
           random_draws = random_draws w\<rparr>)"
    by (rule first_attempt_returns) (rule assms)
  then show ?case
    by (simp add: Cons.IH)
qed

text \<open>
  C9. For every list of chunks, \<open>generate_document_summary\<close> is the specification's
  pipeline: the per-chunk summary call once per chunk, in list order, each on its own chunk
  only; the space-joined summaries in the same order; then the final summary call once over
  the joined text, whose result is returned; every call of the model goes through
  \<open>process_with_retry\<close>. When the hosted model answers every call, the trace is exactly
  one call per chunk in list order followed by one call on the joined summaries.
  (An exception that leaves a guarded call ends the pipeline at that point, in the
  specification's reading as in the code.)
\<close>

theorem summary_pipeline:
  "generate_document_summary jitter fb chunks llm w = summary_spec jitter fb chunks llm w \<and>
   ((\<forall>c inp s. fst (llm c inp s) = Returns (reply c inp)) \<longrightarrow>
      (let summaries = map (\<lambda>chunk. reply SummaryChain (DocChunk chunk)) chunks;
           combined = join_space summaries
       in fst (generate_document_summary jitter fb chunks llm w) =
            Returns (Some (reply FinalSummaryChain (CombinedSummary combined))) \<and>
          trace (snd (generate_document_summary jitter fb chunks llm w)) =
            trace w @ map (\<lambda>chunk. Call (DocChunk chunk)) chunks @
            [Call (CombinedSummary combined)]))"
proof (intro conjI impI)
  show "generate_document_summary jitter fb chunks llm w = summary_spec jitter fb chunks llm w"
    by (simp add: generate_document_summary_def summary_spec_def summarize_chunks_map
             split: prod.splits outcome.splits)
next
  assume answers: "\<forall>c inp s. fst (llm c inp s) = Returns (reply c inp)"
  let ?summaries = "map (\<lambda>chunk. reply SummaryChain (DocChunk chunk)) chunks"
  let ?loop = "summarize_chunks jitter fb llm chunks [] w"
  have loop: "fst ?loop = Returns (map Some ?summaries)"
    "trace (snd ?loop) = trace w @ map (\<lambda>chunk. Call (DocChunk chunk)) chunks"
    using summarize_chunks_answered [of llm "reply SummaryChain" jitter fb chunks "[]" w] answers
    by (simp_all add: comp_def)
  have join: "str_join (map Some ?summaries) = Returns (join_space ?summaries)"
    by (simp only: str_join_def all_strings_Some option.case)
  have final: "process_with_retry jitter fb (llm FinalSummaryChain)
                 (CombinedSummary (join_space ?summaries)) 3 (snd ?loop) =
         (Returns (Some (reply FinalSummaryChain (CombinedSummary (join_space ?summaries)))),
          \<lparr>service = snd (llm FinalSummaryChain (CombinedSummary (join_space ?summaries))
                            (service (snd ?loop))),
           trace = trace (snd ?loop) @ [Call (CombinedSummary (join_space ?summaries))],
           random_draws = random_draws (snd ?loop)\<rparr>)"
    by (rule first_attempt_returns) (simp add: answers)
  have "generate_document_summary jitter fb chunks llm w =
        process_with_retry jitter fb (llm FinalSummaryChain)
                 (CombinedSummary (join_space ?summaries)) 3 (snd ?loop)"
    using loop(1) join
    by (cases ?loop) (simp add: generate_document_summary_def)
  with final loop(2)
  show "let summaries = ?summaries; combined = join_space summaries
       in fst (generate_document_summary jitter fb chunks llm w) =
            Returns (Some (reply FinalSummaryChain (CombinedSummary combined))) \<and>
          trace (snd (generate_document_summary jitter fb chunks llm w)) =
            trace w @ map (\<lambda>chunk. Call (DocChunk chunk)) chunks @
            [Call (CombinedSummary combined)]"
    by (simp add: Let_def)
qed

theorem summary_pipeline_witness:
  "(\<forall>c inp s. fst (echo_llm c inp s) = Returns (echo_reply c inp)) \<and>
   fst (generate_document_summary (\<lambda>n. 0) (\<lambda>inp max_length. ''local'') [''a'', ''b''] echo_llm
          \<lparr>service = 0, trace = [], random_draws = 0\<rparr>) = Returns (Some ''F(S(a) S(b))'') \<and>
   trace (snd (generate_document_summary (\<lambda>n. 0) (\<lambda>inp max_length. ''local'') [''a'', ''b'']
                 echo_llm \<lparr>service = 0, trace = [], random_draws = 0\<rparr>)) =
     [Call (DocChunk ''a''), Call (DocChunk ''b''), Call (CombinedSummary ''S(a) S(b)'')]"
proof -
  have h: "\<forall>c inp s. fst (echo_llm c inp s) = Returns (echo_reply c inp)"
    by (simp add: echo_llm_def)
  note t = summary_pipeline [of "\<lambda>n. 0" "\<lambda>inp max_length. ''local''" "[''a'', ''b'']" echo_llm
         "\<lparr>service = 0, trace = [], random_draws = 0\<rparr>" echo_reply,
         THEN conjunct2, THEN mp, OF h]
  from t h show ?thesis
    by (simp add: Let_def echo_reply_def)
qed


section \<open>Properties of the file upload\<close>

lemma datetime_unbound: "load_name ''datetime'' = Inl (NameError ''datetime'')"
  by (simp add: load_name_def upload_locals_def module_globals_def)

text \<open>
  C10. For every input and every behaviour of the storage service,
  \<open>upload_file_to_firebase\<close> returns \<open>None\<close>: the name \<open>datetime\<close> is bound nowhere in
  the module, so the \<open>try\<close> block raises (at the latest a \<open>NameError\<close>), the handler shows
  one error, and every document record built from the result has \<open>file_url = None\<close>.
\<close>

theorem upload_always_none:
  "load_name ''datetime'' = Inl (NameError ''datetime'') \<and>
   fst (upload_file_to_firebase storage timestamp user_id file) = None \<and>
   (\<exists>e. snd (upload_file_to_firebase storage timestamp user_id file) = [e]) \<and>
   file_url (document_info storage timestamp user_id file text text_chunks) = None"
  by (simp add: datetime_unbound upload_file_to_firebase_def upload_body_def document_info_def
           split: sum.splits)
end
